theory Spec2Isabelle
  imports Complex_Main
begin

section \<open>The anomaly detector of \<open>docker/anomaly-detection/src/detector.py\<close>\<close>

text \<open>
  The development embeds the class \<open>AnomalyDetector\<close> and the polling loop of \<open>main\<close>.
  Samples, statistics and the threshold are float64 values. Their arithmetic belongs to
  Python and numpy, not to the repository, so the type \<open>'f\<close> of these values and the
  operations the code calls on them are parameters of every definition: what is proved
  holds for every implementation of the operations, float64 with its rounding,
  \<open>nan\<close> and infinities included.
\<close>

subsection \<open>The numeric operations the code calls\<close>

record 'f numerics =
  np_mean :: "'f list \<Rightarrow> 'f"         \<comment> \<open>\<open>np.mean(values)\<close>\<close>
  np_std :: "'f list \<Rightarrow> 'f"          \<comment> \<open>\<open>np.std(values)\<close>, population deviation (\<open>ddof = 0\<close>)\<close>
  f_sub :: "'f \<Rightarrow> 'f \<Rightarrow> 'f"          \<comment> \<open>\<open>value - mean\<close>\<close>
  f_abs :: "'f \<Rightarrow> 'f"                \<comment> \<open>\<open>abs(...)\<close>\<close>
  f_div :: "'f \<Rightarrow> 'f \<Rightarrow> 'f"          \<comment> \<open>\<open>... / std\<close>\<close>
  f_gt :: "'f \<Rightarrow> 'f \<Rightarrow> bool"         \<comment> \<open>\<open>z_score > self.threshold\<close>\<close>
  f_is_zero :: "'f \<Rightarrow> bool"          \<comment> \<open>\<open>std == 0\<close>\<close>
  f_zero :: "'f"                     \<comment> \<open>the \<open>0\<close> returned at line 79\<close>
  py_round :: "'f \<Rightarrow> nat \<Rightarrow> 'f"       \<comment> \<open>\<open>round(x, n)\<close> of a Python float\<close>
  np_round :: "'f \<Rightarrow> nat \<Rightarrow> 'f"       \<comment> \<open>\<open>round(x, n)\<close> of a \<open>np.float64\<close>\<close>

datatype pyerror =
    ValueError          \<comment> \<open>\<open>deque(maxlen=n)\<close> with \<open>n < 0\<close>\<close>
  | ZeroDivide          \<comment> \<open>the division of line 81 reached with a divisor that is 0\<close>
  | IOError string      \<comment> \<open>an exception raised by an external collaborator\<close>

text \<open>
  The division of line 81. numpy does not raise on a zero divisor (it warns and yields
  \<open>inf\<close> or \<open>nan\<close>); the model makes that event an outcome of its own, \<open>Inl ZeroDivide\<close>,
  so that its absence is a statement about \<open>add_sample\<close>.
\<close>

definition divide :: "'f numerics \<Rightarrow> 'f \<Rightarrow> 'f \<Rightarrow> pyerror + 'f" where
  "divide np a b = (if f_is_zero np b then Inl ZeroDivide else Inr (f_div np a b))"

subsection \<open>The bounded window: \<open>collections.deque(maxlen=n)\<close>\<close>

record 'f deque =
  maxlen :: nat
  items :: "'f list"

text \<open>\<open>deque(maxlen=n)\<close> raises \<open>ValueError\<close> for a negative \<open>n\<close>.\<close>

definition new_deque :: "int \<Rightarrow> pyerror + 'f deque" where
  "new_deque n = (if n < 0 then Inl ValueError else Inr \<lparr>maxlen = nat n, items = []\<rparr>)"

text \<open>\<open>append\<close> adds on the right, then drops the leftmost item when the bound is exceeded.\<close>

definition deque_append :: "'f deque \<Rightarrow> 'f \<Rightarrow> 'f deque" where
  "deque_append q x =
     (let ys = items q @ [x]
      in q\<lparr>items := (if maxlen q < length ys then tl ys else ys)\<rparr>)"

subsection \<open>\<open>class AnomalyDetector\<close>\<close>

record 'f detector =
  window_size :: int
  threshold :: 'f
  history :: "string \<rightharpoonup> 'f deque"

definition AnomalyDetector :: "int \<Rightarrow> 'f \<Rightarrow> 'f detector" where
  "AnomalyDetector ws th = \<lparr>window_size = ws, threshold = th, history = Map.empty\<rparr>"

text \<open>
  The result of \<open>add_sample\<close> is the triple \<open>(is_anomaly, z_score, mean)\<close>; \<open>None\<close> stands
  for the triple \<open>(None, None, None)\<close> of line 72. In the words of the specification,
  \<open>None\<close> is Insufficient, \<open>Some (False, z, m)\<close> is Normal and \<open>Some (True, z, m)\<close> is
  Anomalous. The detector is returned with the result, also when an exception is raised:
  the only raise, in the construction of the deque, comes before any assignment.
\<close>

type_synonym 'f sample_result = "(bool \<times> 'f \<times> 'f) option"

definition add_sample ::
  "'f numerics \<Rightarrow> 'f detector \<Rightarrow> string \<Rightarrow> 'f \<Rightarrow> 'f detector \<times> (pyerror + 'f sample_result)" where
  "add_sample np d tag_name v =
     (case (case history d tag_name of
              Some q \<Rightarrow> Inr q
            | None \<Rightarrow> new_deque (window_size d)) of
        Inl e \<Rightarrow> (d, Inl e)
      | Inr q \<Rightarrow>
          let q' = deque_append q v;
              d' = d\<lparr>history := (history d)(tag_name \<mapsto> q')\<rparr>
          in if int (length (items q')) < window_size d div 2 then (d', Inr None)
             else
               let mean = np_mean np (items q');
                   std = np_std np (items q')
               in if f_is_zero np std then (d', Inr (Some (False, f_zero np, mean)))
                  else (case divide np (f_abs np (f_sub np v mean)) std of
                          Inl e \<Rightarrow> (d', Inl e)
                        | Inr z_score \<Rightarrow>
                            (d', Inr (Some (f_gt np z_score (threshold d), z_score, mean)))))"

text \<open>
  A run of \<open>add_sample\<close> calls on one detector: the detector after the samples
  \<open>(tag, value)\<close> have been fed in order. A call that raises leaves the detector as it was.
\<close>

definition feed :: "'f numerics \<Rightarrow> 'f detector \<Rightarrow> (string \<times> 'f) list \<Rightarrow> 'f detector" where
  "feed np d samples = foldl (\<lambda>d' (tag_name, v). fst (add_sample np d' tag_name v)) d samples"

subsection \<open>The polling loop of \<open>main\<close>\<close>

text \<open>
  The module constants read from the environment, and \<open>iot_client\<close>: \<open>True\<close> when
  \<open>main\<close> holds a client object, \<open>False\<close> when it is \<open>None\<close> (no connection string, or
  \<open>create_from_connection_string\<close> raised).
\<close>

record 'f config =
  DEVICE_ID :: string
  WINDOW_SIZE :: int
  ANOMALY_THRESHOLD :: 'f
  iot_client :: bool

record 'f anomaly_info =
  info_tag :: string
  info_value :: 'f
  info_baseline :: 'f
  info_deviation :: 'f
  info_threshold :: 'f

record 'f alert =
  messageType :: string
  deviceId :: string
  timestamp :: string
  anomalyCount :: int
  totalAnomalies :: int
  anomalies :: "'f anomaly_info list"
  severity :: string

text \<open>A call of \<open>log_json\<close>: level, component and what the message reports.\<close>

datatype 'f log_message =
    AnomalyDetected string 'f 'f
  | ErrorReading string pyerror
  | AlertSent string
  | FailedToSendAlert pyerror

type_synonym 'f log_entry = "string \<times> string \<times> 'f log_message"

text \<open>
  The variables of the loop, with two lists that record its effects: the calls of
  \<open>log_json\<close> and the payloads handed to \<open>iot_client.send_message\<close>, both in order.
\<close>

record 'f loop_state =
  detector :: "'f detector"
  anomaly_count :: int
  anomalies_detected :: "'f anomaly_info list"
  logged :: "'f log_entry list"
  sent :: "'f alert list"

text \<open>The dictionary literal of lines 141 to 147.\<close>

definition anomaly_info_of :: "'f numerics \<Rightarrow> 'f config \<Rightarrow> string \<Rightarrow> 'f \<Rightarrow> 'f \<Rightarrow> 'f \<Rightarrow> 'f anomaly_info" where
  "anomaly_info_of np cfg tag_name v baseline z_score =
     \<lparr>info_tag = tag_name,
      info_value = py_round np v 3,
      info_baseline = np_round np baseline 3,
      info_deviation = np_round np z_score 2,
      info_threshold = ANOMALY_THRESHOLD cfg\<rparr>"

text \<open>
  The body of the \<open>for\<close> loop (lines 131 to 156) for one node: its tag name and what
  \<open>node.get_value()\<close> did, a value or an exception. The \<open>except\<close> clause catches every
  exception of the body, logs it and goes on to the next node.
\<close>

definition process_node ::
  "'f numerics \<Rightarrow> 'f config \<Rightarrow> 'f loop_state \<Rightarrow> string \<times> (pyerror + 'f) \<Rightarrow> 'f loop_state" where
  "process_node np cfg st node =
     (case node of (tag_name, got) \<Rightarrow>
        (case got of
           Inl e \<Rightarrow> st\<lparr>logged := logged st @ [(''ERROR'', ''OPCUA'', ErrorReading tag_name e)]\<rparr>
         | Inr v \<Rightarrow>
             (case add_sample np (detector st) tag_name v of
                (d', Inl e) \<Rightarrow>
                  st\<lparr>detector := d',
                     logged := logged st @ [(''ERROR'', ''OPCUA'', ErrorReading tag_name e)]\<rparr>
              | (d', Inr None) \<Rightarrow> st\<lparr>detector := d'\<rparr>
              | (d', Inr (Some (is_anomaly, z_score, baseline))) \<Rightarrow>
                  if is_anomaly then
                    st\<lparr>detector := d',
                       anomaly_count := anomaly_count st + 1,
                       anomalies_detected := anomalies_detected st @
                         [anomaly_info_of np cfg tag_name v baseline z_score],
                       logged := logged st @
                         [(''WARNING'', ''Detector'', AnomalyDetected tag_name v z_score)]\<rparr>
                  else st\<lparr>detector := d'\<rparr>)))"

definition poll_nodes ::
  "'f numerics \<Rightarrow> 'f config \<Rightarrow> 'f loop_state \<Rightarrow> (string \<times> (pyerror + 'f)) list \<Rightarrow> 'f loop_state" where
  "poll_nodes np cfg st nodes = foldl (process_node np cfg) st nodes"

text \<open>
  What one iteration of \<open>while True\<close> receives from outside: the clock reading, for each
  node of \<open>nodes\<close> in order its tag name and the outcome of \<open>get_value\<close>, and the outcome
  of \<open>send_message\<close> should it be called (\<open>None\<close>: it returns; \<open>Some e\<close>: it raises \<open>e\<close>).
\<close>

record 'f cycle =
  now :: string
  fetched :: "(string \<times> (pyerror + 'f)) list"
  send_outcome :: "pyerror option"

text \<open>The dictionary literal of lines 160 to 168.\<close>

definition make_alert :: "'f config \<Rightarrow> string \<Rightarrow> 'f loop_state \<Rightarrow> 'f alert" where
  "make_alert cfg ts st =
     \<lparr>messageType = ''anomalyAlert'',
      deviceId = DEVICE_ID cfg,
      timestamp = ts,
      anomalyCount = int (length (anomalies_detected st)),
      totalAnomalies = anomaly_count st,
      anomalies = anomalies_detected st,
      severity = (if int (length (anomalies_detected st)) < 2 then ''warning'' else ''critical'')\<rparr>"

text \<open>One iteration of \<open>while True\<close> (lines 126 to 177); the sleep is not modelled.\<close>

definition run_cycle :: "'f numerics \<Rightarrow> 'f config \<Rightarrow> 'f loop_state \<Rightarrow> 'f cycle \<Rightarrow> 'f loop_state" where
  "run_cycle np cfg st c =
     (let st1 = poll_nodes np cfg (st\<lparr>anomalies_detected := []\<rparr>) (fetched c)
      in if anomalies_detected st1 \<noteq> [] \<and> iot_client cfg then
           let a = make_alert cfg (now c) st1;
               st2 = st1\<lparr>sent := sent st1 @ [a]\<rparr>
           in (case send_outcome c of
                 None \<Rightarrow>
                   st2\<lparr>logged := logged st2 @ [(''INFO'', ''IoTHub'', AlertSent (severity a))]\<rparr>
               | Some e \<Rightarrow>
                   st2\<lparr>logged := logged st2 @ [(''ERROR'', ''IoTHub'', FailedToSendAlert e)]\<rparr>)
         else st1)"

text \<open>
  The loop from its start (lines 95 and 123) through a finite number of iterations. The
  loop itself has no exit: every iteration ends in a state from which the next one runs.
\<close>

definition main_init :: "'f config \<Rightarrow> 'f loop_state" where
  "main_init cfg =
     \<lparr>detector = AnomalyDetector (WINDOW_SIZE cfg) (ANOMALY_THRESHOLD cfg),
      anomaly_count = 0,
      anomalies_detected = [],
      logged = [],
      sent = []\<rparr>"

definition main_loop :: "'f numerics \<Rightarrow> 'f config \<Rightarrow> 'f cycle list \<Rightarrow> 'f loop_state" where
  "main_loop np cfg cycles = foldl (run_cycle np cfg) (main_init cfg) cycles"

subsection \<open>The batch of a cycle, in the words of the specification\<close>

text \<open>
  Following the specification (section 4.4, steps 2 and 3, with the payload shape of
  section 6), not the loop: every fetched value is fed to the detector in order, and every
  Anomalous result goes into the batch as signal name, value, baseline mean, z-score and
  configured threshold. The loop of the source is compared with it below.
\<close>

fun spec_batch ::
  "'f numerics \<Rightarrow> 'f config \<Rightarrow> 'f detector \<Rightarrow> (string \<times> 'f) list \<Rightarrow> 'f anomaly_info list" where
  "spec_batch np cfg d [] = []"
| "spec_batch np cfg d ((tag_name, v) # rest) =
     (case snd (add_sample np d tag_name v) of
        Inr (Some (True, z_score, baseline)) \<Rightarrow> [anomaly_info_of np cfg tag_name v baseline z_score]
      | _ \<Rightarrow> [])
     @ spec_batch np cfg (fst (add_sample np d tag_name v)) rest"

subsection \<open>Exact arithmetic, for the examples\<close>

text \<open>
  One implementation of the operations, on exact values with a \<open>nan\<close> that propagates
  as in IEEE arithmetic. It is not float64: it agrees with numpy wherever numpy computes
  without rounding, which is so at every input of the examples in this theory (small
  integers and halves, and \<open>nan\<close>). No statement about the detector or the loop depends on it.
\<close>

datatype npfloat = Num real | NaN

fun the_num :: "npfloat \<Rightarrow> real" where
  "the_num (Num x) = x"
| "the_num NaN = 0"

definition exact_mean :: "npfloat list \<Rightarrow> npfloat" where
  "exact_mean vs =
     (if vs = [] \<or> NaN \<in> set vs then NaN
      else Num (sum_list (map the_num vs) / real (length vs)))"

definition exact_std :: "npfloat list \<Rightarrow> npfloat" where
  "exact_std vs =
     (if vs = [] \<or> NaN \<in> set vs then NaN
      else let m = sum_list (map the_num vs) / real (length vs)
           in Num (sqrt (sum_list (map (\<lambda>x. (the_num x - m)\<^sup>2) vs) / real (length vs))))"

fun exact_sub :: "npfloat \<Rightarrow> npfloat \<Rightarrow> npfloat" where
  "exact_sub (Num a) (Num b) = Num (a - b)"
| "exact_sub _ _ = NaN"

fun exact_abs :: "npfloat \<Rightarrow> npfloat" where
  "exact_abs (Num a) = Num \<bar>a\<bar>"
| "exact_abs NaN = NaN"

fun exact_div :: "npfloat \<Rightarrow> npfloat \<Rightarrow> npfloat" where
  "exact_div (Num a) (Num b) = (if b = 0 then NaN else Num (a / b))"
| "exact_div _ _ = NaN"

fun exact_gt :: "npfloat \<Rightarrow> npfloat \<Rightarrow> bool" where
  "exact_gt (Num a) (Num b) = (b < a)"
| "exact_gt _ _ = False"

definition round_half_even :: "real \<Rightarrow> int" where
  "round_half_even x =
     (let f = \<lfloor>x\<rfloor>; r = x - of_int f
      in if r < 1 / 2 then f else if 1 / 2 < r then f + 1 else if even f then f else f + 1)"

fun exact_round :: "npfloat \<Rightarrow> nat \<Rightarrow> npfloat" where
  "exact_round (Num x) n = Num (of_int (round_half_even (x * 10 ^ n)) / 10 ^ n)"
| "exact_round NaN n = NaN"

definition exact :: "npfloat numerics" where
  "exact =
     \<lparr>np_mean = exact_mean, np_std = exact_std, f_sub = exact_sub, f_abs = exact_abs,
      f_div = exact_div, f_gt = exact_gt, f_is_zero = (\<lambda>x. x = Num 0), f_zero = Num 0,
      py_round = exact_round, np_round = exact_round\<rparr>"

section \<open>Properties of \<open>add_sample\<close>\<close>


lemma add_sample_result:
  assumes "add_sample np d tag v = (d', r)" and "history d' tag = Some q"
  shows "r = (if int (length (items q)) < window_size d div 2 then Inr None
              else if f_is_zero np (np_std np (items q))
                   then Inr (Some (False, f_zero np, np_mean np (items q)))
              else Inr (Some (f_gt np (f_div np (f_abs np (f_sub np v (np_mean np (items q))))
                                                (np_std np (items q))) (threshold d),
                              f_div np (f_abs np (f_sub np v (np_mean np (items q)))) (np_std np (items q)),
                              np_mean np (items q))))"
  using assms
  by (auto simp: add_sample_def divide_def Let_def split: option.splits sum.splits if_splits)

lemma add_sample_history_upd:
  "history (fst (add_sample np d tag v)) =
     (case history d tag of
        Some q \<Rightarrow> (history d)(tag \<mapsto> deque_append q v)
      | None \<Rightarrow> if window_size d < 0 then history d
                else (history d)(tag \<mapsto> deque_append \<lparr>maxlen = nat (window_size d), items = []\<rparr> v))"
  by (auto simp: add_sample_def new_deque_def Let_def divide_def
      split: option.splits sum.splits if_splits)

lemma add_sample_window_size [simp]: "window_size (fst (add_sample np d tag v)) = window_size d"
  by (auto simp: add_sample_def Let_def divide_def split: option.splits sum.splits if_splits)

lemma add_sample_threshold [simp]: "threshold (fst (add_sample np d tag v)) = threshold d"
  by (auto simp: add_sample_def Let_def divide_def split: option.splits sum.splits if_splits)

lemma AnomalyDetector_fields [simp]:
  "window_size (AnomalyDetector ws th) = ws"
  "threshold (AnomalyDetector ws th) = th"
  "history (AnomalyDetector ws th) = Map.empty"
  by (simp_all add: AnomalyDetector_def)

text \<open>The guard of line 78 keeps the division of line 81 away from a zero divisor.\<close>

lemma add_sample_no_zero_divide: "snd (add_sample np d tag v) \<noteq> Inl ZeroDivide"
  by (auto simp: add_sample_def Let_def new_deque_def divide_def
      split: option.splits sum.splits if_splits)

text \<open>
  When the deviation that numpy returns for the window is 0, the sample is Normal with
  z-score 0. Whether identical values give that deviation is a matter of float64
  rounding, which the operations carry.
\<close>

lemma add_sample_flat:
  assumes "add_sample np d tag v = (d', r)"
    and "history d' tag = Some q"
    and "window_size d div 2 \<le> int (length (items q))"
    and "f_is_zero np (np_std np (items q))"
  shows "r = Inr (Some (False, f_zero np, np_mean np (items q)))"
  using add_sample_result [OF assms(1,2)] assms(3,4) by simp

subsection \<open>The window\<close>

lemma maxlen_deque_append [simp]: "maxlen (deque_append q x) = maxlen q"
  by (simp add: deque_append_def Let_def)

lemma maxlen_foldl_deque_append [simp]: "maxlen (foldl deque_append q xs) = maxlen q"
  by (induction xs arbitrary: q) simp_all





subsection \<open>Runs of \<open>add_sample\<close>\<close>

lemma feed_snoc: "feed np d (samples @ [(t, v)]) = fst (add_sample np (feed np d samples) t v)"
  by (simp add: feed_def)

lemma feed_window_size [simp]: "window_size (feed np d samples) = window_size d"
  by (induction samples rule: rev_induct) (auto simp: feed_snoc feed_def)




subsection \<open>Small windows\<close>



subsection \<open>Exact arithmetic\<close>

lemma exact_fields [simp]:
  "np_mean exact = exact_mean" "np_std exact = exact_std" "f_sub exact = exact_sub"
  "f_abs exact = exact_abs" "f_div exact = exact_div" "f_gt exact = exact_gt"
  "f_is_zero exact = (\<lambda>x. x = Num 0)" "f_zero exact = Num 0"
  "py_round exact = exact_round" "np_round exact = exact_round"
  by (simp_all add: exact_def)


section \<open>The claims about the detector\<close>

text \<open>
  C2. When the window of the signal, after the insertion, holds fewer than
  \<open>window_size // 2\<close> samples, \<open>add_sample\<close> returns the triple of \<open>None\<close>s (Insufficient),
  whatever the value is.
\<close>

theorem add_sample_insufficient:
  assumes "add_sample np d tag v = (d', r)"
    and "history d' tag = Some q"
    and "int (length (items q)) < window_size d div 2"
  shows "r = Inr None"
  using add_sample_result [OF assms(1,2)] assms(3) by simp

theorem add_sample_insufficient_witness:
  "add_sample exact (AnomalyDetector 20 (Num (5 / 2))) ''Temperature'' (Num 1000000) =
     (\<lparr>window_size = 20, threshold = Num (5 / 2),
       history = [''Temperature'' \<mapsto> \<lparr>maxlen = 20, items = [Num 1000000]\<rparr>]\<rparr>, Inr None)"
proof -
  let ?d = "AnomalyDetector 20 (Num (5 / 2)) :: npfloat detector"
  let ?q = "\<lparr>maxlen = 20, items = [Num 1000000]\<rparr>"
  let ?d' = "\<lparr>window_size = 20, threshold = Num (5 / 2), history = [''Temperature'' \<mapsto> ?q]\<rparr>"
  have app: "deque_append \<lparr>maxlen = 20, items = []\<rparr> (Num 1000000) = ?q"
    by (simp add: deque_append_def Let_def)
  have up: "history (fst (add_sample exact ?d ''Temperature'' (Num 1000000))) = [''Temperature'' \<mapsto> ?q]"
    by (simp add: add_sample_history_upd app)
  have "fst (add_sample exact ?d ''Temperature'' (Num 1000000)) = ?d'"
    using up
      add_sample_window_size [of exact ?d "''Temperature''" "Num 1000000"]
      add_sample_threshold [of exact ?d "''Temperature''" "Num 1000000"]
    by (cases "fst (add_sample exact ?d ''Temperature'' (Num 1000000))") simp
  then have run: "add_sample exact ?d ''Temperature'' (Num 1000000)
                    = (?d', snd (add_sample exact ?d ''Temperature'' (Num 1000000)))"
    by (metis prod.collapse)
  have h2: "history ?d' ''Temperature'' = Some ?q" by simp
  have h3: "int (length (items ?q)) < window_size ?d div 2" by simp
  have "snd (add_sample exact ?d ''Temperature'' (Num 1000000)) = Inr None"
    by (rule add_sample_insufficient [OF run h2 h3])
  then show ?thesis using run by simp
qed



text \<open>
  C3 on the code. Three samples of \<open>0.1\<close>, the float64 \<open>3602879701896397 / 2\<^sup>5\<^sup>5\<close>, fill
  half of a window of 6. numpy returns for this window the mean \<open>0.10000000000000002\<close>,
  one unit in the last place above the samples, and the deviation \<open>2\<^sup>-\<^sup>5\<^sup>6\<close>; the
  subtraction and the division of line 81 are exact on these values. The operations are
  therefore the exact ones with numpy's two results on this window. The guard of line 78
  does not fire and the third sample is flagged as anomalous with z-score 1, where the
  claim has Normal with z-score 0.
\<close>

theorem identical_samples_flagged:
  "snd (add_sample
     (exact\<lparr>np_mean := exact_mean
               ([Num (3602879701896397 / 2 ^ 55), Num (3602879701896397 / 2 ^ 55),
                 Num (3602879701896397 / 2 ^ 55)] := Num (7205759403792795 / 2 ^ 56)),
            np_std := exact_std
               ([Num (3602879701896397 / 2 ^ 55), Num (3602879701896397 / 2 ^ 55),
                 Num (3602879701896397 / 2 ^ 55)] := Num (1 / 2 ^ 56))\<rparr>)
     \<lparr>window_size = 6, threshold = Num (1 / 2),
      history = [''Temperature'' \<mapsto>
        \<lparr>maxlen = 6, items = [Num (3602879701896397 / 2 ^ 55), Num (3602879701896397 / 2 ^ 55)]\<rparr>]\<rparr>
     ''Temperature'' (Num (3602879701896397 / 2 ^ 55)))
   = Inr (Some (True, Num 1, Num (7205759403792795 / 2 ^ 56)))"
  by (simp add: add_sample_def deque_append_def divide_def exact_def Let_def)

text \<open>
  C10. A call \<open>add_sample(tag, v)\<close> leaves \<open>window_size\<close> and \<open>threshold\<close> as they
  were, leaves the window of every other signal as it was, and removes no signal from
  \<open>history\<close>.
\<close>

theorem add_sample_frame:
  assumes "add_sample np d tag v = (d', r)"
  shows "window_size d' = window_size d \<and> threshold d' = threshold d
         \<and> (\<forall>t. t \<noteq> tag \<longrightarrow> history d' t = history d t)
         \<and> dom (history d) \<subseteq> dom (history d')"
  using assms
  by (auto simp: add_sample_def Let_def divide_def split: option.splits sum.splits if_splits)

theorem add_sample_frame_witness:
  "history (fst (add_sample exact
       \<lparr>window_size = 20, threshold = Num (5 / 2),
        history = [''Vibration'' \<mapsto> \<lparr>maxlen = 20, items = [Num 3]\<rparr>]\<rparr> ''Pressure'' (Num 7))) ''Vibration''
     = Some \<lparr>maxlen = 20, items = [Num 3]\<rparr>
   \<and> ''Vibration'' \<in> dom (history (fst (add_sample exact
       \<lparr>window_size = 20, threshold = Num (5 / 2),
        history = [''Vibration'' \<mapsto> \<lparr>maxlen = 20, items = [Num 3]\<rparr>]\<rparr> ''Pressure'' (Num 7))))"
proof -
  let ?d = "\<lparr>window_size = 20, threshold = Num (5 / 2),
             history = [''Vibration'' \<mapsto> \<lparr>maxlen = 20, items = [Num 3]\<rparr>]\<rparr>"
  have run: "add_sample exact ?d ''Pressure'' (Num 7)
               = (fst (add_sample exact ?d ''Pressure'' (Num 7)),
                  snd (add_sample exact ?d ''Pressure'' (Num 7)))"
    by simp
  have ne: "''Vibration'' \<noteq> ''Pressure''" by simp
  have old: "history ?d ''Vibration'' = Some \<lparr>maxlen = 20, items = [Num 3]\<rparr>" by simp
  have "history (fst (add_sample exact ?d ''Pressure'' (Num 7))) ''Vibration'' = history ?d ''Vibration''"
    by (rule add_sample_frame [OF run, THEN conjunct2, THEN conjunct2, THEN conjunct1,
          THEN spec, THEN mp, OF ne])
  then have same: "history (fst (add_sample exact ?d ''Pressure'' (Num 7))) ''Vibration''
                     = Some \<lparr>maxlen = 20, items = [Num 3]\<rparr>"
    by (simp only: old)
  show ?thesis
    using same by (intro conjI domI)
qed






section \<open>Properties of the polling loop\<close>

lemma process_node_failed:
  "process_node np cfg st (t, Inl e)
     = st\<lparr>logged := logged st @ [(''ERROR'', ''OPCUA'', ErrorReading t e)]\<rparr>"
  by (simp add: process_node_def)

lemma process_node_fetched:
  "detector (process_node np cfg st (t, Inr v)) = fst (add_sample np (detector st) t v)
   \<and> anomalies_detected (process_node np cfg st (t, Inr v))
       = anomalies_detected st @
           (case snd (add_sample np (detector st) t v) of
              Inr (Some (True, z_score, baseline)) \<Rightarrow> [anomaly_info_of np cfg t v baseline z_score]
            | _ \<Rightarrow> [])
   \<and> anomaly_count (process_node np cfg st (t, Inr v))
       = anomaly_count st +
           int (length (case snd (add_sample np (detector st) t v) of
              Inr (Some (True, z_score, baseline)) \<Rightarrow> [anomaly_info_of np cfg t v baseline z_score]
            | _ \<Rightarrow> []))"
  by (auto simp: process_node_def split: prod.splits sum.splits option.splits bool.splits)

lemma process_node_sent [simp]: "sent (process_node np cfg st n) = sent st"
  by (auto simp: process_node_def split: prod.splits sum.splits option.splits)

lemma process_node_logged: "set (logged st) \<subseteq> set (logged (process_node np cfg st n))"
  by (auto simp: process_node_def split: prod.splits sum.splits option.splits)

lemma poll_nodes_Nil [simp]: "poll_nodes np cfg st [] = st"
  by (simp add: poll_nodes_def)

lemma poll_nodes_Cons [simp]:
  "poll_nodes np cfg st (n # ns) = poll_nodes np cfg (process_node np cfg st n) ns"
  by (simp add: poll_nodes_def)

lemma poll_nodes_sent [simp]: "sent (poll_nodes np cfg st ns) = sent st"
  by (induction ns arbitrary: st) simp_all

lemma poll_nodes_logged: "set (logged st) \<subseteq> set (logged (poll_nodes np cfg st ns))"
proof (induction ns arbitrary: st)
  case Nil
  then show ?case by simp
next
  case (Cons n ns)
  then show ?case using process_node_logged [of st np cfg n] by fastforce
qed

lemma poll_nodes_failure_logged:
  assumes "(t, Inl e) \<in> set ns"
  shows "(''ERROR'', ''OPCUA'', ErrorReading t e) \<in> set (logged (poll_nodes np cfg st ns))"
  using assms
proof (induction ns arbitrary: st)
  case Nil
  then show ?case by simp
next
  case (Cons n ns)
  show ?case
  proof (cases "n = (t, Inl e)")
    case True
    have "(''ERROR'', ''OPCUA'', ErrorReading t e) \<in> set (logged (process_node np cfg st n))"
      by (simp add: True process_node_failed)
    then show ?thesis
      using poll_nodes_logged [of "process_node np cfg st n" np cfg ns] by auto
  next
    case False
    then have "(t, Inl e) \<in> set ns" using Cons.prems by simp
    then show ?thesis using Cons.IH by simp
  qed
qed

text \<open>
  The loop against the specification: the detector has been fed the fetched values, the
  batch has grown by their anomalies, and the counter by their number. A failed fetch
  contributes nothing and disturbs nothing.
\<close>

lemma poll_nodes_batch:
  "detector (poll_nodes np cfg st ns)
     = feed np (detector st) (map (\<lambda>n. (fst n, projr (snd n))) (filter (\<lambda>n. \<not> isl (snd n)) ns))
   \<and> anomalies_detected (poll_nodes np cfg st ns)
       = anomalies_detected st @
           spec_batch np cfg (detector st)
             (map (\<lambda>n. (fst n, projr (snd n))) (filter (\<lambda>n. \<not> isl (snd n)) ns))
   \<and> anomaly_count (poll_nodes np cfg st ns)
       = anomaly_count st +
           int (length (spec_batch np cfg (detector st)
             (map (\<lambda>n. (fst n, projr (snd n))) (filter (\<lambda>n. \<not> isl (snd n)) ns))))"
proof (induction ns arbitrary: st)
  case Nil
  then show ?case by (simp add: feed_def)
next
  case (Cons n ns)
  obtain t g where n: "n = (t, g)" by (cases n)
  show ?case
  proof (cases g)
    case (Inl e)
    show ?thesis
      using Cons [of "process_node np cfg st n"]
      by (simp add: n Inl process_node_failed)
  next
    case (Inr v)
    show ?thesis
      using Cons [of "process_node np cfg st n"] process_node_fetched [of np cfg st t v]
      by (simp add: n Inr feed_def)
  qed
qed

lemma poll_nodes_total:
  "anomaly_count (poll_nodes np cfg (st\<lparr>anomalies_detected := []\<rparr>) ns)
     = anomaly_count st
       + int (length (anomalies_detected (poll_nodes np cfg (st\<lparr>anomalies_detected := []\<rparr>) ns)))"
  using poll_nodes_batch [of np cfg "st\<lparr>anomalies_detected := []\<rparr>" ns] by simp

lemma run_cycle_sent:
  "sent (run_cycle np cfg st c) =
     (let st1 = poll_nodes np cfg (st\<lparr>anomalies_detected := []\<rparr>) (fetched c)
      in if anomalies_detected st1 \<noteq> [] \<and> iot_client cfg
         then sent st @ [make_alert cfg (now c) st1] else sent st)"
  by (simp add: run_cycle_def Let_def split: option.splits)

lemma run_cycle_anomaly_count:
  "anomaly_count (run_cycle np cfg st c)
     = anomaly_count (poll_nodes np cfg (st\<lparr>anomalies_detected := []\<rparr>) (fetched c))"
  by (simp add: run_cycle_def Let_def split: option.splits)

lemma main_loop_snoc:
  "main_loop np cfg (cycles @ [c]) = run_cycle np cfg (main_loop np cfg cycles) c"
  by (simp add: main_loop_def)

lemma make_alert_severity:
  "anomalyCount (make_alert cfg ts st) = int (length (anomalies (make_alert cfg ts st)))
   \<and> (severity (make_alert cfg ts st) = ''critical'' \<longleftrightarrow> 2 \<le> anomalyCount (make_alert cfg ts st))
   \<and> (severity (make_alert cfg ts st) = ''warning'' \<longleftrightarrow> anomalyCount (make_alert cfg ts st) < 2)"
  by (simp add: make_alert_def)

lemma main_loop_sent_alerts:
  assumes "a \<in> set (sent (main_loop np cfg cycles))"
  shows "\<exists>ts st. a = make_alert cfg ts st"
  using assms
proof (induction cycles arbitrary: a rule: rev_induct)
  case Nil
  then show ?case by (simp add: main_loop_def main_init_def)
next
  case (snoc c cycles)
  then show ?case
    by (auto simp: main_loop_snoc run_cycle_sent Let_def split: if_splits)
qed

lemma main_loop_totals:
  "sorted_wrt (\<le>) (map totalAnomalies (sent (main_loop np cfg cycles)))
   \<and> (\<forall>a \<in> set (sent (main_loop np cfg cycles)).
         totalAnomalies a \<le> anomaly_count (main_loop np cfg cycles))"
proof (induction cycles rule: rev_induct)
  case Nil
  then show ?case by (simp add: main_loop_def main_init_def)
next
  case (snoc c cycles)
  let ?st = "main_loop np cfg cycles"
  let ?st1 = "poll_nodes np cfg (?st\<lparr>anomalies_detected := []\<rparr>) (fetched c)"
  have mono: "anomaly_count ?st \<le> anomaly_count ?st1"
    by (simp add: poll_nodes_total)
  have tot: "totalAnomalies (make_alert cfg (now c) ?st1) = anomaly_count ?st1"
    by (simp add: make_alert_def)
  have cnt: "anomaly_count (run_cycle np cfg ?st c) = anomaly_count ?st1"
    by (rule run_cycle_anomaly_count)
  show ?case
  proof (cases "anomalies_detected ?st1 \<noteq> [] \<and> iot_client cfg")
    case True
    then have s: "sent (run_cycle np cfg ?st c) = sent ?st @ [make_alert cfg (now c) ?st1]"
      by (simp add: run_cycle_sent Let_def)
    show ?thesis
      unfolding main_loop_snoc s cnt
      using snoc mono tot by (auto simp: sorted_wrt_append)
  next
    case False
    then have s: "sent (run_cycle np cfg ?st c) = sent ?st"
      by (auto simp: run_cycle_sent Let_def)
    show ?thesis
      unfolding main_loop_snoc s cnt
      using snoc mono by auto
  qed
qed

section \<open>The claims about the polling loop\<close>

text \<open>
  C5. In every alert payload that the loop hands to the sink, \<open>anomalyCount\<close> is the number
  of anomalies listed in it, the severity is \<open>critical\<close> exactly when \<open>anomalyCount\<close> is at
  least 2 and \<open>warning\<close> exactly when it is below 2.
\<close>

theorem alert_severity:
  "\<forall>a \<in> set (sent (main_loop np cfg cycles)).
     anomalyCount a = int (length (anomalies a))
     \<and> (severity a = ''critical'' \<longleftrightarrow> 2 \<le> anomalyCount a)
     \<and> (severity a = ''warning'' \<longleftrightarrow> anomalyCount a < 2)"
proof
  fix a assume "a \<in> set (sent (main_loop np cfg cycles))"
  then obtain ts st where "a = make_alert cfg ts st"
    using main_loop_sent_alerts by blast
  then show "anomalyCount a = int (length (anomalies a))
     \<and> (severity a = ''critical'' \<longleftrightarrow> 2 \<le> anomalyCount a)
     \<and> (severity a = ''warning'' \<longleftrightarrow> anomalyCount a < 2)"
    using make_alert_severity by simp
qed

theorem alert_severity_witness:
  "map (\<lambda>a. (anomalyCount a, severity a)) (sent (main_loop exact
     \<lparr>DEVICE_ID = ''edge-1'', WINDOW_SIZE = 2, ANOMALY_THRESHOLD = Num (1 / 2), iot_client = True\<rparr>
     [\<lparr>now = ''t1'', fetched = [(''Vibration'', Inr (Num 0)), (''Pressure'', Inr (Num 0))],
       send_outcome = None\<rparr>,
      \<lparr>now = ''t2'', fetched = [(''Vibration'', Inr (Num 2)), (''Pressure'', Inr (Num 2))],
       send_outcome = None\<rparr>,
      \<lparr>now = ''t3'', fetched = [(''Vibration'', Inr (Num 4)), (''Pressure'', Inr (Num 2))],
       send_outcome = None\<rparr>]))
   = [(2, ''critical''), (1, ''warning'')]"
proof -
  let ?cfg = "\<lparr>DEVICE_ID = ''edge-1'', WINDOW_SIZE = 2, ANOMALY_THRESHOLD = Num (1 / 2),
               iot_client = True\<rparr>"
  let ?cycles =
    "[\<lparr>now = ''t1'', fetched = [(''Vibration'', Inr (Num 0)), (''Pressure'', Inr (Num 0))],
       send_outcome = None\<rparr>,
      \<lparr>now = ''t2'', fetched = [(''Vibration'', Inr (Num 2)), (''Pressure'', Inr (Num 2))],
       send_outcome = None\<rparr>,
      \<lparr>now = ''t3'', fetched = [(''Vibration'', Inr (Num 4)), (''Pressure'', Inr (Num 2))],
       send_outcome = None\<rparr>]"
  have counts: "map anomalyCount (sent (main_loop exact ?cfg ?cycles)) = [2, 1]"
    by (simp add: main_loop_def main_init_def run_cycle_def poll_nodes_def process_node_def
        add_sample_def new_deque_def deque_append_def divide_def exact_mean_def exact_std_def
        make_alert_def AnomalyDetector_def Let_def)
  then obtain a b where ab: "sent (main_loop exact ?cfg ?cycles) = [a, b]"
    and a: "anomalyCount a = 2" and b: "anomalyCount b = 1"
    by (auto simp: map_eq_Cons_conv)
  have "severity a = ''critical'' \<longleftrightarrow> 2 \<le> anomalyCount a"
    using alert_severity [of exact ?cfg ?cycles] unfolding ab by simp
  then have sa: "severity a = ''critical''" using a by simp
  have "severity b = ''warning'' \<longleftrightarrow> anomalyCount b < 2"
    using alert_severity [of exact ?cfg ?cycles] unfolding ab by simp
  then have sb: "severity b = ''warning''" using b by simp
  show ?thesis unfolding ab using a b sa sb by simp
qed

text \<open>
  C6. The \<open>totalAnomalies\<close> fields of the payloads handed to the sink, in the order of
  sending, never decrease.
\<close>

theorem total_anomalies_monotone:
  "sorted_wrt (\<le>) (map totalAnomalies (sent (main_loop np cfg cycles)))"
  using main_loop_totals by blast

text \<open>
  C7, as the code has it. In a cycle whose batch of anomalies is not empty and with an
  IoT Hub client at hand (\<open>iot_client\<close> is not \<open>None\<close>), the loop hands to the sink one
  payload with the device identity, the timestamp of the cycle, the batch, its length, the
  running total (the total before the cycle plus the length of the batch) and the derived
  severity. With an empty batch or without a client, nothing is handed to the sink.
\<close>

theorem alert_handed_to_sink:
  assumes "st1 = poll_nodes np cfg (st\<lparr>anomalies_detected := []\<rparr>) (fetched c)"
  shows "(anomalies_detected st1 \<noteq> [] \<and> iot_client cfg \<longrightarrow>
            sent (run_cycle np cfg st c) = sent st @
              [\<lparr>messageType = ''anomalyAlert'',
                deviceId = DEVICE_ID cfg,
                timestamp = now c,
                anomalyCount = int (length (anomalies_detected st1)),
                totalAnomalies = anomaly_count st + int (length (anomalies_detected st1)),
                anomalies = anomalies_detected st1,
                severity = (if 2 \<le> length (anomalies_detected st1) then ''critical'' else ''warning'')\<rparr>])
         \<and> (anomalies_detected st1 = [] \<or> \<not> iot_client cfg \<longrightarrow> sent (run_cycle np cfg st c) = sent st)"
proof -
  have tot: "anomaly_count st1 = anomaly_count st + int (length (anomalies_detected st1))"
    unfolding assms by (rule poll_nodes_total)
  show ?thesis
    using tot by (auto simp: run_cycle_sent assms [symmetric] Let_def make_alert_def)
qed

theorem alert_handed_to_sink_witness:
  "map (\<lambda>a. (deviceId a, timestamp a, anomalyCount a, totalAnomalies a, severity a,
              map info_tag (anomalies a)))
     (sent (run_cycle exact
        \<lparr>DEVICE_ID = ''edge-1'', WINDOW_SIZE = 2, ANOMALY_THRESHOLD = Num (1 / 2), iot_client = True\<rparr>
        (main_loop exact
           \<lparr>DEVICE_ID = ''edge-1'', WINDOW_SIZE = 2, ANOMALY_THRESHOLD = Num (1 / 2), iot_client = True\<rparr>
           [\<lparr>now = ''t1'', fetched = [(''Vibration'', Inr (Num 0)), (''Pressure'', Inr (Num 0))],
             send_outcome = None\<rparr>])
        \<lparr>now = ''t2'', fetched = [(''Vibration'', Inr (Num 2)), (''Pressure'', Inr (Num 2))],
          send_outcome = None\<rparr>))
   = [(''edge-1'', ''t2'', 2, 2, ''critical'', [''Vibration'', ''Pressure''])]"
proof -
  let ?cfg = "\<lparr>DEVICE_ID = ''edge-1'', WINDOW_SIZE = 2, ANOMALY_THRESHOLD = Num (1 / 2),
               iot_client = True\<rparr>"
  let ?st = "main_loop exact ?cfg
    [\<lparr>now = ''t1'', fetched = [(''Vibration'', Inr (Num 0)), (''Pressure'', Inr (Num 0))],
      send_outcome = None\<rparr>]"
  let ?c = "\<lparr>now = ''t2'', fetched = [(''Vibration'', Inr (Num 2)), (''Pressure'', Inr (Num 2))],
             send_outcome = None\<rparr>"
  define st1 where "st1 = poll_nodes exact ?cfg (?st\<lparr>anomalies_detected := []\<rparr>) (fetched ?c)"
  have tags: "map info_tag (anomalies_detected st1) = [''Vibration'', ''Pressure'']"
    unfolding st1_def
    by (simp add: main_loop_def main_init_def run_cycle_def poll_nodes_def process_node_def
        add_sample_def new_deque_def deque_append_def divide_def exact_mean_def exact_std_def
        anomaly_info_of_def AnomalyDetector_def Let_def)
  then have len: "length (anomalies_detected st1) = 2"
    by (metis length_map length_Cons list.size(3) numeral_2_eq_2)
  have before: "sent ?st = []" and total: "anomaly_count ?st = 0"
    by (simp_all add: main_loop_def main_init_def run_cycle_def poll_nodes_def process_node_def
        add_sample_def new_deque_def deque_append_def divide_def exact_mean_def exact_std_def
        AnomalyDetector_def Let_def)
  have go: "anomalies_detected st1 \<noteq> [] \<and> iot_client ?cfg"
    using len by auto
  note sent = alert_handed_to_sink [OF st1_def, THEN conjunct1, THEN mp, OF go]
  show ?thesis
    unfolding sent before by (simp add: tags len total)
qed

text \<open>
  C7 as stated fails without a client: with \<open>iot_client = None\<close> a cycle whose batch
  holds two anomalies hands nothing to the sink.
\<close>

theorem no_client_no_alert_counterexample:
  "length (anomalies_detected (main_loop exact
     \<lparr>DEVICE_ID = ''edge-1'', WINDOW_SIZE = 2, ANOMALY_THRESHOLD = Num (1 / 2), iot_client = False\<rparr>
     [\<lparr>now = ''t1'', fetched = [(''Vibration'', Inr (Num 0)), (''Pressure'', Inr (Num 0))],
       send_outcome = None\<rparr>,
      \<lparr>now = ''t2'', fetched = [(''Vibration'', Inr (Num 2)), (''Pressure'', Inr (Num 2))],
       send_outcome = None\<rparr>])) = 2
   \<and> sent (main_loop exact
     \<lparr>DEVICE_ID = ''edge-1'', WINDOW_SIZE = 2, ANOMALY_THRESHOLD = Num (1 / 2), iot_client = False\<rparr>
     [\<lparr>now = ''t1'', fetched = [(''Vibration'', Inr (Num 0)), (''Pressure'', Inr (Num 0))],
       send_outcome = None\<rparr>,
      \<lparr>now = ''t2'', fetched = [(''Vibration'', Inr (Num 2)), (''Pressure'', Inr (Num 2))],
       send_outcome = None\<rparr>]) = []"
  by (simp add: main_loop_def main_init_def run_cycle_def poll_nodes_def process_node_def
      add_sample_def new_deque_def deque_append_def divide_def exact_mean_def exact_std_def
      AnomalyDetector_def Let_def)

text \<open>
  C8. In the \<open>for\<close> loop of a cycle every failed fetch is logged as an error and skipped,
  and the signals whose fetch succeeded are all classified and batched as the
  specification has it: the detector has been fed exactly their values, in order; the
  batch has grown by exactly the anomaly records of those values; and the counter has
  grown by the number of those records. The cycle always ends in a state, from which the
  next one runs.
\<close>

theorem fetch_failure_isolated:
  "(\<forall>t e. (t, Inl e) \<in> set nodes \<longrightarrow>
       (''ERROR'', ''OPCUA'', ErrorReading t e) \<in> set (logged (poll_nodes np cfg st nodes)))
   \<and> detector (poll_nodes np cfg st nodes)
       = feed np (detector st) (map (\<lambda>n. (fst n, projr (snd n))) (filter (\<lambda>n. \<not> isl (snd n)) nodes))
   \<and> anomalies_detected (poll_nodes np cfg st nodes)
       = anomalies_detected st @
           spec_batch np cfg (detector st)
             (map (\<lambda>n. (fst n, projr (snd n))) (filter (\<lambda>n. \<not> isl (snd n)) nodes))
   \<and> anomaly_count (poll_nodes np cfg st nodes)
       = anomaly_count st +
           int (length (spec_batch np cfg (detector st)
             (map (\<lambda>n. (fst n, projr (snd n))) (filter (\<lambda>n. \<not> isl (snd n)) nodes))))"
  using poll_nodes_failure_logged [of _ _ nodes np cfg st] poll_nodes_batch [of np cfg st nodes]
  by simp

theorem fetch_failure_isolated_witness:
  "(''ERROR'', ''OPCUA'', ErrorReading ''Temperature'' (IOError ''timeout''))
     \<in> set (logged (poll_nodes exact
         \<lparr>DEVICE_ID = ''edge-1'', WINDOW_SIZE = 2, ANOMALY_THRESHOLD = Num (1 / 2), iot_client = True\<rparr>
         \<lparr>detector = \<lparr>window_size = 2, threshold = Num (1 / 2),
                      history = [''Vibration'' \<mapsto> \<lparr>maxlen = 2, items = [Num 0]\<rparr>,
                                 ''Pressure'' \<mapsto> \<lparr>maxlen = 2, items = [Num 0]\<rparr>]\<rparr>,
          anomaly_count = 0, anomalies_detected = [], logged = [], sent = []\<rparr>
         [(''Vibration'', Inr (Num 2)), (''Temperature'', Inl (IOError ''timeout'')),
          (''Pressure'', Inr (Num 2))]))
   \<and> map (\<lambda>i. (info_tag i, info_value i, info_baseline i, info_deviation i))
       (anomalies_detected (poll_nodes exact
         \<lparr>DEVICE_ID = ''edge-1'', WINDOW_SIZE = 2, ANOMALY_THRESHOLD = Num (1 / 2), iot_client = True\<rparr>
         \<lparr>detector = \<lparr>window_size = 2, threshold = Num (1 / 2),
                      history = [''Vibration'' \<mapsto> \<lparr>maxlen = 2, items = [Num 0]\<rparr>,
                                 ''Pressure'' \<mapsto> \<lparr>maxlen = 2, items = [Num 0]\<rparr>]\<rparr>,
          anomaly_count = 0, anomalies_detected = [], logged = [], sent = []\<rparr>
         [(''Vibration'', Inr (Num 2)), (''Temperature'', Inl (IOError ''timeout'')),
          (''Pressure'', Inr (Num 2))]))
     = [(''Vibration'', Num 2, Num 1, Num 1), (''Pressure'', Num 2, Num 1, Num 1)]"
proof -
  let ?cfg = "\<lparr>DEVICE_ID = ''edge-1'', WINDOW_SIZE = 2, ANOMALY_THRESHOLD = Num (1 / 2),
               iot_client = True\<rparr>"
  let ?d = "\<lparr>window_size = 2, threshold = Num (1 / 2),
             history = [''Vibration'' \<mapsto> \<lparr>maxlen = 2, items = [Num 0]\<rparr>,
                        ''Pressure'' \<mapsto> \<lparr>maxlen = 2, items = [Num 0]\<rparr>]\<rparr>"
  let ?st = "\<lparr>detector = ?d, anomaly_count = 0, anomalies_detected = [], logged = [], sent = []\<rparr>"
  let ?nodes = "[(''Vibration'', Inr (Num 2)), (''Temperature'', Inl (IOError ''timeout'')),
                 (''Pressure'', Inr (Num 2))] :: (string \<times> (pyerror + npfloat)) list"
  note iso = fetch_failure_isolated [of ?nodes exact ?cfg ?st]
  have failed: "(''Temperature'', Inl (IOError ''timeout'')) \<in> set ?nodes" by simp
  have logged: "(''ERROR'', ''OPCUA'', ErrorReading ''Temperature'' (IOError ''timeout''))
                  \<in> set (logged (poll_nodes exact ?cfg ?st ?nodes))"
    by (rule iso [THEN conjunct1, THEN spec, THEN spec, THEN mp, OF failed])
  have ok: "map (\<lambda>n. (fst n, projr (snd n))) (filter (\<lambda>n. \<not> isl (snd n)) ?nodes)
              = [(''Vibration'', Num 2), (''Pressure'', Num 2)]"
    by simp
  have r2: "round_half_even 2000 = 2000" and r1: "round_half_even 1000 = 1000"
    and r100: "round_half_even 100 = 100"
    by (simp_all add: round_half_even_def)
  have batch: "map (\<lambda>i. (info_tag i, info_value i, info_baseline i, info_deviation i))
                 (spec_batch exact ?cfg ?d [(''Vibration'', Num 2), (''Pressure'', Num 2)])
               = [(''Vibration'', Num 2, Num 1, Num 1), (''Pressure'', Num 2, Num 1, Num 1)]"
    by (simp add: add_sample_def deque_append_def divide_def exact_mean_def exact_std_def
        anomaly_info_of_def r1 r2 r100 Let_def)
  have "anomalies_detected (poll_nodes exact ?cfg ?st ?nodes)
          = spec_batch exact ?cfg ?d [(''Vibration'', Num 2), (''Pressure'', Num 2)]"
    using iso [THEN conjunct2, THEN conjunct2, THEN conjunct1] unfolding ok by simp
  then show ?thesis using logged batch by simp
qed

end
